theory Spec2Isabelle
  imports Complex_Main "HOL-Library.Sublist"
begin

section \<open>Data model\<close>

text \<open>
  The server (\<^verbatim>\<open>src/app/server.js\<close>) keeps the history of sent emails in one JSON
  file and answers five routes; the browser client (\<^verbatim>\<open>src/unnamed/part_000\<close>) keeps a
  list of selected files and the rendered history.

  JavaScript strings are modelled as \<open>string\<close>, one \<open>char\<close> per code unit below 256.
  A finite JavaScript number is modelled by its exact value, a rational; the identifier
  \<^verbatim>\<open>Date.now() + Math.random()\<close> and the time stamp \<^verbatim>\<open>new Date().toISOString()\<close> are
  inputs of the operation that draws them.
\<close>

type_synonym number = rat

text \<open>
  \<^verbatim>\<open>emailData\<close> is the object literal the send handler builds (server.js 303-310);
  \<^verbatim>\<open>addEmail\<close> spreads it between \<^verbatim>\<open>id\<close> and \<^verbatim>\<open>sent_at\<close> (46-50). The field \<^verbatim>\<open>id\<close> is
  named \<open>email_id\<close>, the field \<^verbatim>\<open>to\<close> is named \<open>rcpt_to\<close>.
\<close>

record emailData =
  rcpt_to :: string
  subject :: string
  message :: string
  attachments :: "string list"
  messageId :: string
  status :: string

record SentEmail = emailData +
  email_id :: number
  sent_at :: string

section \<open>The store file\<close>

text \<open>
  The text of \<^verbatim>\<open>/app/data/emails.json\<close> is modelled up to what \<^verbatim>\<open>JSON.parse\<close> makes of
  it: \<open>JsonText xs\<close> is the text \<^verbatim>\<open>JSON.stringify(xs, null, 2)\<close> of a list of records,
  \<open>OtherText s\<close> is a text \<open>s\<close> that \<^verbatim>\<open>JSON.parse\<close> rejects with a SyntaxError. (A text
  that parses to something other than a list of records is outside the model: the
  program only ever writes lists of records.) The file itself is \<open>None\<close> when it is
  missing or cannot be read, which is when \<^verbatim>\<open>fs.readFileSync\<close> throws.
\<close>

datatype file_text = JsonText "SentEmail list" | OtherText string

type_synonym store_file = "file_text option"

definition JSON_stringify :: "SentEmail list \<Rightarrow> file_text" where
  "JSON_stringify xs = JsonText xs"

fun JSON_parse :: "file_text \<Rightarrow> SentEmail list option" where
  "JSON_parse (JsonText xs) = Some xs"
| "JSON_parse (OtherText s) = None"

text \<open>
  \<^verbatim>\<open>fs.writeFileSync\<close> either replaces the whole file or throws, leaving behind whatever
  the failed write left (the old file, a truncated one, none).
\<close>

datatype write_outcome = WriteOk | WriteThrows store_file

text \<open>server.js 24-32: every exception of the read or the parse yields \<^verbatim>\<open>[]\<close>.\<close>

definition readDatabase :: "store_file \<Rightarrow> SentEmail list" where
  "readDatabase f =
     (case f of
        None \<Rightarrow> []
      | Some data \<Rightarrow> (case JSON_parse data of None \<Rightarrow> [] | Some xs \<Rightarrow> xs))"

text \<open>server.js 34-42: the new file and the boolean the function returns.\<close>

definition writeDatabase :: "write_outcome \<Rightarrow> SentEmail list \<Rightarrow> store_file \<times> bool" where
  "writeDatabase w data =
     (case w of
        WriteOk \<Rightarrow> (Some (JSON_stringify data), True)
      | WriteThrows left \<Rightarrow> (left, False))"

text \<open>
  server.js 44-54. \<open>nid\<close> is \<^verbatim>\<open>Date.now() + Math.random()\<close>, \<open>now\<close> is the ISO time stamp.
  \<^verbatim>\<open>unshift\<close> puts the new record in front. The result of \<^verbatim>\<open>writeDatabase\<close> is dropped.
\<close>

definition newEmail :: "number \<Rightarrow> string \<Rightarrow> emailData \<Rightarrow> SentEmail" where
  "newEmail nid now d =
     \<lparr>rcpt_to = rcpt_to d, subject = subject d, message = message d,
      attachments = attachments d, messageId = messageId d, status = status d,
      email_id = nid, sent_at = now\<rparr>"

definition addEmail ::
  "number \<Rightarrow> string \<Rightarrow> write_outcome \<Rightarrow> emailData \<Rightarrow> store_file \<Rightarrow> store_file \<times> number" where
  "addEmail nid now w d f =
     (let emails = readDatabase f;
          e = newEmail nid now d;
          emails' = e # emails;
          (f', ok) = writeDatabase w emails'
      in (f', email_id e))"

subsection \<open>Pagination\<close>

text \<open>
  \<^verbatim>\<open>Array.prototype.slice(start, end)\<close> on integers: a negative index counts from the
  end, both are clamped to the array, and an empty range gives \<^verbatim>\<open>[]\<close>.
\<close>

definition slice :: "'a list \<Rightarrow> int \<Rightarrow> int \<Rightarrow> 'a list" where
  "slice xs start fin =
     (let len = int (length xs);
          k = (if start < 0 then max (len + start) 0 else min start len);
          final = (if fin < 0 then max (len + fin) 0 else min fin len)
      in take (nat (final - k)) (drop (nat k) xs))"

text \<open>
  \<^verbatim>\<open>Math.ceil(n / l)\<close> for integers \<open>n \<ge> 0\<close> and \<open>l\<close>: the quotient is \<^verbatim>\<open>Infinity\<close> or
  \<^verbatim>\<open>NaN\<close> when \<open>l = 0\<close>.
\<close>

datatype jsnum = Num int | PosInfinity | NaN

definition Math_ceil_div :: "int \<Rightarrow> int \<Rightarrow> jsnum" where
  "Math_ceil_div n l =
     (if l = 0 then (if n = 0 then NaN else PosInfinity)
      else Num \<lceil>rat_of_int n / rat_of_int l\<rceil>)"

fun js_less :: "int \<Rightarrow> jsnum \<Rightarrow> bool" where
  "js_less p (Num k) = (p < k)"
| "js_less p PosInfinity = True"
| "js_less p NaN = False"

record page_result =
  emails :: "SentEmail list"
  total :: nat
  page :: int
  totalPages :: jsnum

text \<open>server.js 56-67.\<close>

definition getEmails :: "int \<Rightarrow> int \<Rightarrow> store_file \<Rightarrow> page_result" where
  "getEmails p limit f =
     (let emails = readDatabase f;
          startIndex = (p - 1) * limit;
          endIndex = startIndex + limit
      in \<lparr>emails = slice emails startIndex endIndex,
          total = length emails,
          page = p,
          totalPages = Math_ceil_div (int (length emails)) limit\<rparr>)"

subsection \<open>Lookup and deletion by id\<close>

text \<open>
  \<^verbatim>\<open>email.id == id\<close> compares a stored number with the string of the URL: the string is
  converted with the language's \<^verbatim>\<open>ToNumber\<close> and the numbers are compared. \<open>toNumber\<close>
  is that conversion, a parameter: \<open>None\<close> when the string converts to \<^verbatim>\<open>NaN\<close> or to an
  infinity, which equal no stored number.
\<close>

definition loose_eq :: "(string \<Rightarrow> number option) \<Rightarrow> number \<Rightarrow> string \<Rightarrow> bool" where
  "loose_eq toNumber n s = (toNumber s = Some n)"

text \<open>server.js 69-72: \<^verbatim>\<open>find\<close> returns the first match or \<^verbatim>\<open>undefined\<close>.\<close>

definition getEmailById ::
  "(string \<Rightarrow> number option) \<Rightarrow> string \<Rightarrow> store_file \<Rightarrow> SentEmail option" where
  "getEmailById toNumber i f =
     (let emails = readDatabase f
      in find (\<lambda>email. loose_eq toNumber (email_id email) i) emails)"

text \<open>server.js 74-82: the new file and the boolean \<^verbatim>\<open>deleted\<close>.\<close>

definition deleteEmailById ::
  "(string \<Rightarrow> number option) \<Rightarrow> write_outcome \<Rightarrow> string \<Rightarrow> store_file \<Rightarrow> store_file \<times> bool" where
  "deleteEmailById toNumber w i f =
     (let emails = readDatabase f;
          filteredEmails = filter (\<lambda>email. \<not> loose_eq toNumber (email_id email) i) emails;
          deleted = (length emails \<noteq> length filteredEmails)
      in if deleted then (fst (writeDatabase w filteredEmails), True) else (f, False))"

section \<open>Regular expressions of the source\<close>

text \<open>
  The two patterns of the source use literals, character classes and \<^verbatim>\<open>+\<close> only. A
  pattern anchored at both ends is a list of pieces; the matcher tries every split, as
  a backtracking matcher does.
\<close>

datatype piece = Lit char | Plus "char \<Rightarrow> bool"

fun matches :: "piece list \<Rightarrow> string \<Rightarrow> bool"
  and many1 :: "(char \<Rightarrow> bool) \<Rightarrow> piece list \<Rightarrow> string \<Rightarrow> bool" where
  "matches [] s = (s = [])"
| "matches (Lit c # r) [] = False"
| "matches (Lit c # r) (x # xs) = (x = c \<and> matches r xs)"
| "matches (Plus k # r) s = many1 k r s"
| "many1 k r [] = False"
| "many1 k r (x # xs) = (k x \<and> (matches r xs \<or> many1 k r xs))"

text \<open>\<^verbatim>\<open>\s\<close> on code units below 256: tab, LF, VT, FF, CR, space and U+00A0.\<close>

definition isSpace :: "char \<Rightarrow> bool" where
  "isSpace c = (of_char c \<in> set [9, 10, 11, 12, 13, 32, 160 :: nat])"

definition notSpaceAt :: "char \<Rightarrow> bool" where
  "notSpaceAt c = (\<not> isSpace c \<and> c \<noteq> CHR ''@'')"

text \<open>server.js 255: \<^verbatim>\<open>/^[^\s@]+@[^\s@]+\.[^\s@]+$/\<close>.\<close>

definition emailRegex :: "piece list" where
  "emailRegex = [Plus notSpaceAt, Lit CHR ''@'', Plus notSpaceAt, Lit CHR ''.'', Plus notSpaceAt]"

definition emailRegex_test :: "string \<Rightarrow> bool" where
  "emailRegex_test s = matches emailRegex s"

text \<open>
  The flag \<^verbatim>\<open>i\<close> of a pattern of ASCII letters folds the case of ASCII letters only;
  \<^verbatim>\<open>String.prototype.toLowerCase\<close> also maps U+00C0..U+00DE, except U+00D7, down by 32.
\<close>

definition ascii_lower :: "char \<Rightarrow> char" where
  "ascii_lower c =
     (let n = of_char c :: nat in if 65 \<le> n \<and> n \<le> 90 then char_of (n + 32) else c)"

definition lower_char :: "char \<Rightarrow> char" where
  "lower_char c =
     (let n = of_char c :: nat
      in if (65 \<le> n \<and> n \<le> 90) \<or> (192 \<le> n \<and> n \<le> 222 \<and> n \<noteq> 215)
         then char_of (n + 32) else c)"

definition toLowerCase :: "string \<Rightarrow> string" where
  "toLowerCase s = map lower_char s"

text \<open>
  server.js 107:
  \<^verbatim>\<open>/\.(jpg|jpeg|png|gif|pdf|doc|docx|txt|zip|rar|xlsx|xls|ppt|pptx)$/i\<close>.
\<close>

definition allowedExtensions :: "string list" where
  "allowedExtensions =
     [''jpg'', ''jpeg'', ''png'', ''gif'', ''pdf'', ''doc'', ''docx'', ''txt'', ''zip'',
      ''rar'', ''xlsx'', ''xls'', ''ppt'', ''pptx'']"

definition allowedTypes_test :: "string \<Rightarrow> bool" where
  "allowedTypes_test n =
     list_ex (\<lambda>ext. suffix (CHR ''.'' # ext) (map ascii_lower n)) allowedExtensions"

section \<open>HTTP layer\<close>

record pagination =
  currentPage :: int
  pg_totalPages :: jsnum
  totalEmails :: nat
  hasNext :: bool
  hasPrev :: bool

text \<open>
  The JSON bodies the routes send. \<open>SendFailure m\<close> is \<^verbatim>\<open>{success: false, message: m}\<close>,
  \<open>SendSuccess m i mid\<close> is \<^verbatim>\<open>{success: true, message: m, emailId: i, messageId: mid}\<close>,
  \<open>ErrorBody e\<close> is \<^verbatim>\<open>{error: e}\<close>, \<open>MessageBody m\<close> is \<^verbatim>\<open>{message: m}\<close>, and
  \<open>DefaultErrorPage\<close> is what Express sends when a middleware passes an error on.
\<close>

datatype body =
    EmailsBody "SentEmail list" pagination
  | EmailBody SentEmail
  | ErrorBody string
  | MessageBody string
  | SendFailure string
  | SendSuccess string number string
  | DefaultErrorPage

record response =
  statusCode :: nat
  body :: body

text \<open>
  \<^verbatim>\<open>parseInt(q) || d\<close>: \<open>None\<close> is \<^verbatim>\<open>NaN\<close>; \<^verbatim>\<open>NaN\<close> and \<open>0\<close> are falsy.
\<close>

definition or_default :: "int option \<Rightarrow> int \<Rightarrow> int" where
  "or_default q d = (case q of None \<Rightarrow> d | Some n \<Rightarrow> if n = 0 then d else n)"

text \<open>
  server.js 174-199, \<^verbatim>\<open>GET /api/emails\<close>. The three history routes wrap their body in
  \<^verbatim>\<open>try\<close>/\<^verbatim>\<open>catch\<close> and answer 500 on an exception; the store helpers above raise none
  on a list of records, so that branch has no counterpart here.
\<close>

definition get_emails_handler :: "int option \<Rightarrow> int option \<Rightarrow> store_file \<Rightarrow> response" where
  "get_emails_handler qpage qlimit f =
     (let p = or_default qpage 1;
          limit = or_default qlimit 10;
          result = getEmails p limit f
      in \<lparr>statusCode = 200,
          body = EmailsBody (emails result)
            \<lparr>currentPage = page result,
             pg_totalPages = totalPages result,
             totalEmails = total result,
             hasNext = js_less (page result) (totalPages result),
             hasPrev = (page result > 1)\<rparr>\<rparr>)"

text \<open>server.js 202-216, \<^verbatim>\<open>GET /api/emails/:id\<close>.\<close>

definition get_email_handler ::
  "(string \<Rightarrow> number option) \<Rightarrow> string \<Rightarrow> store_file \<Rightarrow> response" where
  "get_email_handler toNumber emailId f =
     (case getEmailById toNumber emailId f of
        None \<Rightarrow> \<lparr>statusCode = 404, body = ErrorBody ''Email not found''\<rparr>
      | Some email \<Rightarrow> \<lparr>statusCode = 200, body = EmailBody email\<rparr>)"

text \<open>server.js 219-233, \<^verbatim>\<open>DELETE /api/emails/:id\<close>: the new file and the response.\<close>

definition delete_email_handler ::
  "(string \<Rightarrow> number option) \<Rightarrow> write_outcome \<Rightarrow> string \<Rightarrow> store_file
     \<Rightarrow> store_file \<times> response" where
  "delete_email_handler toNumber w emailId f =
     (let (f', deleted) = deleteEmailById toNumber w emailId f
      in if \<not> deleted then (f', \<lparr>statusCode = 404, body = ErrorBody ''Email not found''\<rparr>)
         else (f', \<lparr>statusCode = 200, body = MessageBody ''Email deleted successfully''\<rparr>))"

subsection \<open>Uploads\<close>

text \<open>
  A file of a multipart request as multer hands it on: the form field it came in, the
  name the browser sent (a latin1 string), its MIME type, the path the disk storage
  gave it and its size in bytes.
\<close>

record upload =
  fieldname :: string
  originalname :: string
  mimetype :: string
  path :: string
  upload_size :: nat

datatype upload_error =
  LIMIT_FILE_SIZE | LIMIT_FILE_COUNT | LIMIT_UNEXPECTED_FILE | FileTypeNotAllowed

text \<open>server.js 102-105: \<^verbatim>\<open>limits: {fileSize: 10 * 1024 * 1024, files: 5}\<close>.\<close>

definition limit_fileSize :: nat where
  "limit_fileSize = 10 * 1024 * 1024"

definition limit_files :: nat where
  "limit_files = 5"

text \<open>
  server.js 100-114 and 236, \<^verbatim>\<open>upload.array('attachments', 5)\<close>. The middleware is
  multer's; the model follows the contract of the options the source sets. The files
  of the request are taken in order, \<open>n\<close> counts those already accepted; a file beyond
  the limit \<^verbatim>\<open>files\<close>, in another field or beyond the 5 of the field, refused by
  \<^verbatim>\<open>fileFilter\<close>, or longer than \<^verbatim>\<open>fileSize\<close> bytes ends the request with an error.
\<close>

fun upload_array :: "nat \<Rightarrow> upload list \<Rightarrow> upload_error + upload list" where
  "upload_array n [] = Inr []"
| "upload_array n (file # rest) =
     (if limit_files < n + 1 then Inl LIMIT_FILE_COUNT
      else if fieldname file \<noteq> ''attachments'' \<or> 5 < n + 1 then Inl LIMIT_UNEXPECTED_FILE
      else if \<not> allowedTypes_test (originalname file) then Inl FileTypeNotAllowed
      else if limit_fileSize < upload_size file then Inl LIMIT_FILE_SIZE
      else (case upload_array (n + 1) rest of
              Inl e \<Rightarrow> Inl e
            | Inr files \<Rightarrow> Inr (file # files)))"

subsection \<open>Sending\<close>

record attachment =
  filename :: string
  att_path :: string
  contentType :: string

text \<open>
  The object handed to \<^verbatim>\<open>transporter.sendMail\<close> (server.js 272-296), without its
  \<^verbatim>\<open>html\<close> rendering of the same fields.
\<close>

record mailOptions =
  mail_from :: string
  mail_to :: string
  mail_subject :: string
  mail_text :: string
  mail_attachments :: "attachment list"

text \<open>
  \<^verbatim>\<open>await transporter.sendMail(mailOptions)\<close> resolves with \<^verbatim>\<open>info.messageId\<close> or rejects
  with an error message.
\<close>

datatype send_outcome = Delivered string | Rejected string

text \<open>
  What one send request draws from its environment: the variable \<^verbatim>\<open>FROM_EMAIL\<close>, the
  answer of the transport, the identifier and time stamp of \<^verbatim>\<open>addEmail\<close>, and the
  outcome of the write.
\<close>

record send_env =
  FROM_EMAIL :: "string option"
  smtp :: send_outcome
  fresh_id :: number
  timestamp :: string
  write_result :: write_outcome

text \<open>
  The state the routes act on: the store file, and the messages handed to the SMTP
  transport so far (oldest first).
\<close>

record world =
  db :: store_file
  outbox :: "mailOptions list"

text \<open>\<^verbatim>\<open>!v\<close> for a form field: missing or the empty string.\<close>

definition falsy :: "string option \<Rightarrow> bool" where
  "falsy v = (case v of None \<Rightarrow> True | Some s \<Rightarrow> s = [])"

definition or_string :: "string option \<Rightarrow> string \<Rightarrow> string" where
  "or_string v d = (if falsy v then d else the v)"

text \<open>
  server.js 236-335, the handler of \<^verbatim>\<open>POST /api/send-email\<close>. \<open>to\<close>, \<open>subj\<close> and \<open>msg\<close> are
  the fields \<^verbatim>\<open>to\<close>, \<^verbatim>\<open>subject\<close> and \<^verbatim>\<open>message\<close> of \<^verbatim>\<open>req.body\<close>; \<open>utf8\<close> is
  \<^verbatim>\<open>Buffer.from(s, 'latin1').toString('utf8')\<close>. The removal of the uploaded temporary
  files, which every path performs, is not part of the state.
\<close>

definition send_email_handler ::
  "(string \<Rightarrow> string) \<Rightarrow> send_env \<Rightarrow> string option \<Rightarrow> string option \<Rightarrow> string option
     \<Rightarrow> upload list \<Rightarrow> world \<Rightarrow> world \<times> response" where
  "send_email_handler utf8 env to subj msg uploadedFiles w =
     (if falsy to \<or> falsy subj \<or> falsy msg then
        (w, \<lparr>statusCode = 400,
              body = SendFailure ''To, subject, and message are required fields''\<rparr>)
      else if \<not> emailRegex_test (the to) then
        (w, \<lparr>statusCode = 400, body = SendFailure ''Invalid email address''\<rparr>)
      else
        (let atts = map (\<lambda>file. \<lparr>filename = utf8 (originalname file), att_path = path file,
                                  contentType = mimetype file\<rparr>) uploadedFiles;
             opts = \<lparr>mail_from = or_string (FROM_EMAIL env) ''admin@localhost'',
                     mail_to = the to, mail_subject = the subj, mail_text = the msg,
                     mail_attachments = atts\<rparr>;
             w1 = w\<lparr>outbox := outbox w @ [opts]\<rparr>
         in case smtp env of
              Rejected err \<Rightarrow>
                (w1, \<lparr>statusCode = 500,
                       body = SendFailure (''Failed to send email: '' @ err)\<rparr>)
            | Delivered mid \<Rightarrow>
                (let d = \<lparr>rcpt_to = the to, subject = the subj, message = the msg,
                          attachments = map filename atts, messageId = mid,
                          status = ''sent''\<rparr>;
                     (f', emailId) = addEmail (fresh_id env) (timestamp env) (write_result env) d (db w1)
                 in (w1\<lparr>db := f'\<rparr>,
                     \<lparr>statusCode = 200,
                      body = SendSuccess ''Email sent successfully!'' emailId mid\<rparr>))))"

text \<open>
  The route: the upload middleware first; its error goes to Express's default error
  handler and the handler above never runs.
\<close>

definition post_send_email ::
  "(string \<Rightarrow> string) \<Rightarrow> send_env \<Rightarrow> string option \<Rightarrow> string option \<Rightarrow> string option
     \<Rightarrow> upload list \<Rightarrow> world \<Rightarrow> world \<times> response" where
  "post_send_email utf8 env to subj msg parts w =
     (case upload_array 0 parts of
        Inl e \<Rightarrow> (w, \<lparr>statusCode = 500, body = DefaultErrorPage\<rparr>)
      | Inr files \<Rightarrow> send_email_handler utf8 env to subj msg files w)"

section \<open>Browser client\<close>

text \<open>
  \<^verbatim>\<open>src/unnamed/part_000\<close>. A \<^verbatim>\<open>File\<close> of the file input has a name and a size; a rendered
  history entry (an element of class \<^verbatim>\<open>email-item\<close>) has the text of its first \<^verbatim>\<open>h4\<close>,
  if it has one, and its \<^verbatim>\<open>style.display\<close>. The client state also logs the alerts shown
  and the requests issued with \<^verbatim>\<open>fetch\<close>.
\<close>

record File =
  name :: string
  file_size :: nat

record email_item =
  h4 :: "string option"
  display :: string

datatype request = GetEmails int int | PostSendEmail | DeleteEmail string

record client =
  selectedFiles :: "File list"
  emailItems :: "email_item list"
  alerts :: "string list"
  fetches :: "request list"

text \<open>part_000 105-120, the body of the \<^verbatim>\<open>forEach\<close> over the new files.\<close>

definition add_file :: "File list \<times> string list \<Rightarrow> File \<Rightarrow> File list \<times> string list" where
  "add_file st f =
     (let (sel, al) = st;
          exists = list_ex (\<lambda>existingFile. name existingFile = name f
                                \<and> file_size existingFile = file_size f) sel
      in if \<not> exists then
           (if 10 * 1024 * 1024 < file_size f then
              (sel, al @ [''File '' @ name f @ '' is too large. Maximum size is 10MB.''])
            else (sel @ [f], al))
         else (sel, al))"

text \<open>part_000 101-133.\<close>

definition handleFileSelection :: "File list \<Rightarrow> client \<Rightarrow> client" where
  "handleFileSelection newFiles c =
     (let (sel, al) = foldl add_file (selectedFiles c, alerts c) newFiles
      in if 5 < length sel then
           c\<lparr>selectedFiles := slice sel 0 5,
             alerts := al @ [''Maximum 5 files allowed. Keeping first 5 files.'']\<rparr>
         else c\<lparr>selectedFiles := sel, alerts := al\<rparr>)"

text \<open>\<^verbatim>\<open>t.includes(s)\<close>: \<open>s\<close> occurs in \<open>t\<close> as a contiguous piece.\<close>

definition str_includes :: "string \<Rightarrow> string \<Rightarrow> bool" where
  "str_includes t s = sublist s t"

text \<open>part_000 180-192; \<open>v\<close> is the value of the search box.\<close>

definition handleSearch :: "string \<Rightarrow> client \<Rightarrow> client" where
  "handleSearch v c =
     (let searchTerm = toLowerCase v
      in c\<lparr>emailItems :=
            map (\<lambda>item.
                   if (case h4 item of
                         None \<Rightarrow> False
                       | Some textContent \<Rightarrow> str_includes (toLowerCase textContent) searchTerm)
                   then item\<lparr>display := ''block''\<rparr>
                   else item\<lparr>display := ''none''\<rparr>)
              (emailItems c)\<rparr>)"

text \<open>
  part_000 211-245. For every record a \<^verbatim>\<open>div\<close> of class \<^verbatim>\<open>email-item\<close> is created and its
  \<^verbatim>\<open>innerHTML\<close> is set to a template into which the heading
  \<^verbatim>\<open>email.subject || 'No Subject'\<close> (between \<^verbatim>\<open>h4\<close> tags), the date, the recipient, the
  first 150 characters of the message and the attachment line are written as they are,
  unescaped. What elements come of that markup is decided by the browser's HTML parser,
  which is no code of this repository: \<open>rendered heading email\<close> is the list of the
  elements of class \<^verbatim>\<open>email-item\<close> that result for one record, in document order (the
  created \<^verbatim>\<open>div\<close> first, then any that markup in the record's own fields adds), each with
  the text of its first \<^verbatim>\<open>h4\<close>. For fields without markup it is the one entry whose
  heading text is \<open>heading\<close>.
\<close>

definition displayEmails ::
  "(string \<Rightarrow> SentEmail \<Rightarrow> email_item list) \<Rightarrow> SentEmail list \<Rightarrow> client \<Rightarrow> client" where
  "displayEmails rendered es c =
     c\<lparr>emailItems :=
         concat (map (\<lambda>email. rendered (if subject email = [] then ''No Subject''
                                         else subject email) email) es)\<rparr>"

text \<open>
  part_000 195-209: one \<^verbatim>\<open>GET /api/emails?page=p&limit=10\<close> against the server's file
  \<open>f\<close>, then the rendering of the records it returned.
\<close>

definition loadEmails ::
  "(string \<Rightarrow> SentEmail \<Rightarrow> email_item list) \<Rightarrow> int \<Rightarrow> store_file \<Rightarrow> client \<Rightarrow> client" where
  "loadEmails rendered p f c =
     (let c1 = c\<lparr>fetches := fetches c @ [GetEmails p 10]\<rparr>
      in case body (get_emails_handler (Some p) (Some 10) f) of
           EmailsBody es pg \<Rightarrow> displayEmails rendered es c1
         | _ \<Rightarrow> c1\<lparr>emailItems := []\<rparr>)"

definition visible :: "email_item \<Rightarrow> bool" where
  "visible item = (display item \<noteq> ''none'')"

section \<open>Sample values\<close>

text \<open>
  A stored record, the string its identifier has in a URL, a conversion that knows that
  string, and the environment of a send that the transport accepts and the disk takes.
\<close>

definition stored_email :: SentEmail where
  "stored_email =
     \<lparr>rcpt_to = ''bob@example.org'', subject = ''Hello'', message = ''First mail'',
      attachments = [], messageId = ''<m1@mailhog>'', status = ''sent'',
      email_id = 6799999999999997 / 4, sent_at = ''2023-11-14T22:13:19.999Z''\<rparr>"

definition stored_id_string :: string where
  "stored_id_string = ''1699999999999.25''"

definition sample_toNumber :: "string \<Rightarrow> number option" where
  "sample_toNumber s = (if s = ''1699999999999.25'' then Some (6799999999999997 / 4) else None)"

definition sample_env :: send_env where
  "sample_env =
     \<lparr>FROM_EMAIL = None, smtp = Delivered ''<m2@mailhog>'', fresh_id = 3400000000001 / 2,
      timestamp = ''2023-11-14T22:13:20.000Z'', write_result = WriteOk\<rparr>"

definition sample_world :: world where
  "sample_world = \<lparr>db = Some (JSON_stringify [stored_email]), outbox = []\<rparr>"

definition sample_upload :: upload where
  "sample_upload =
     \<lparr>fieldname = ''attachments'', originalname = ''notes.txt'', mimetype = ''text/plain'',
      path = ''/tmp/uploads/1700000000000-notes.txt'', upload_size = 120\<rparr>"

definition sample_client :: client where
  "sample_client = \<lparr>selectedFiles = [], emailItems = [], alerts = [], fetches = [GetEmails 1 10]\<rparr>"

section \<open>Properties of the store\<close>

lemma readDatabase_None: "readDatabase None = []"
  by (simp add: readDatabase_def)

lemma readDatabase_unparsable: "JSON_parse t = None \<Longrightarrow> readDatabase (Some t) = []"
  by (simp add: readDatabase_def)

lemma readDatabase_stringify: "readDatabase (Some (JSON_stringify xs)) = xs"
  by (simp add: readDatabase_def JSON_stringify_def)

lemma addEmail_WriteOk:
  "addEmail nid now WriteOk d f =
     (Some (JSON_stringify (newEmail nid now d # readDatabase f)), nid)"
  by (simp add: addEmail_def writeDatabase_def newEmail_def Let_def)

lemma deleteEmailById_none:
  assumes "\<forall>e \<in> set (readDatabase f). \<not> loose_eq tn (email_id e) i"
  shows "deleteEmailById tn w i f = (f, False)"
proof -
  have "filter (\<lambda>email. \<not> loose_eq tn (email_id email) i) (readDatabase f) = readDatabase f"
    using assms by (simp add: filter_id_conv)
  then show ?thesis by (simp add: deleteEmailById_def Let_def)
qed

lemma deleteEmailById_some:
  assumes "e \<in> set (readDatabase f)" and "loose_eq tn (email_id e) i"
  shows "deleteEmailById tn w i f =
           (fst (writeDatabase w (filter (\<lambda>email. \<not> loose_eq tn (email_id email) i)
                                   (readDatabase f))), True)"
proof -
  let ?P = "\<lambda>email. \<not> loose_eq tn (email_id email) i"
  have "\<not> (\<forall>x \<in> set (readDatabase f). ?P x)" using assms by blast
  then have "length (filter ?P (readDatabase f)) < length (readDatabase f)"
    using length_filter_less [of _ "readDatabase f" ?P] by blast
  then show ?thesis by (simp add: deleteEmailById_def Let_def)
qed

lemma delete_sample:
  "deleteEmailById sample_toNumber WriteOk stored_id_string (db sample_world)
     = (Some (JSON_stringify []), True)"
  by (simp add: deleteEmailById_def sample_world_def readDatabase_stringify loose_eq_def
        sample_toNumber_def stored_id_string_def stored_email_def writeDatabase_def Let_def)

text \<open>
  C9. \<open>readDatabase\<close> returns a list for every state of the store file. When the file is
  missing or unreadable (\<open>None\<close>) or its text is not valid JSON, the result is the empty
  list, and every history operation (listing, lookup by id, deletion, adding) behaves as
  on an empty history.
\<close>

theorem readDatabase_total:
  assumes "f = None \<or> (\<exists>t. f = Some t \<and> JSON_parse t = None)"
  shows "readDatabase f = []
       \<and> getEmails p l f = getEmails p l (Some (JSON_stringify []))
       \<and> get_emails_handler qp ql f = get_emails_handler qp ql (Some (JSON_stringify []))
       \<and> getEmailById tn i f = None
       \<and> get_email_handler tn i f = \<lparr>statusCode = 404, body = ErrorBody ''Email not found''\<rparr>
       \<and> deleteEmailById tn w i f = (f, False)
       \<and> addEmail nid now w d f = addEmail nid now w d (Some (JSON_stringify []))"
proof -
  have e: "readDatabase f = []"
    using assms by (auto simp: readDatabase_None readDatabase_unparsable)
  have g: "getEmails p l f = getEmails p l (Some (JSON_stringify []))" for p l
    by (simp add: getEmails_def e readDatabase_stringify)
  have h: "get_emails_handler qp ql f = get_emails_handler qp ql (Some (JSON_stringify []))"
    by (simp add: get_emails_handler_def g)
  have b: "getEmailById tn i f = None"
    by (simp add: getEmailById_def e)
  have b': "get_email_handler tn i f = \<lparr>statusCode = 404, body = ErrorBody ''Email not found''\<rparr>"
    by (simp add: get_email_handler_def b)
  have d: "deleteEmailById tn w i f = (f, False)"
    by (rule deleteEmailById_none) (simp add: e)
  have a: "addEmail nid now w d f = addEmail nid now w d (Some (JSON_stringify []))"
    by (simp add: addEmail_def e readDatabase_stringify)
  from e g h b b' d a show ?thesis by blast
qed

theorem readDatabase_total_witness:
  "(Some (OtherText ''[{'') = None \<or> (\<exists>t. Some (OtherText ''[{'') = Some t \<and> JSON_parse t = None))
   \<and> readDatabase (Some (OtherText ''[{'')) = []
   \<and> getEmailById (\<lambda>s. None) ''17'' (Some (OtherText ''[{'')) = None
   \<and> deleteEmailById (\<lambda>s. None) WriteOk ''17'' (Some (OtherText ''[{''))
       = (Some (OtherText ''[{''), False)"
proof -
  have h: "Some (OtherText ''[{'') = None
             \<or> (\<exists>t. Some (OtherText ''[{'') = Some t \<and> JSON_parse t = None)"
    by simp
  from readDatabase_total [OF h, of _ _ _ _ "\<lambda>s. None" "''17''" WriteOk] h
  show ?thesis by blast
qed

text \<open>
  C1, as the code has it. After each mutation of the store whose write succeeds, the
  file holds the JSON encoding of the updated list: \<open>addEmail\<close> writes the encoding of
  the list with the new record, \<open>deleteEmailById\<close> writes the encoding of the filtered
  list when it deleted something, and leaves the file alone otherwise; reading the file
  back gives the updated list.
\<close>

theorem mutation_rewrites_file:
  "fst (addEmail nid now WriteOk d f)
     = Some (JSON_stringify (newEmail nid now d # readDatabase f))
   \<and> readDatabase (fst (addEmail nid now WriteOk d f)) = newEmail nid now d # readDatabase f
   \<and> (snd (deleteEmailById tn WriteOk i f) \<longrightarrow>
        fst (deleteEmailById tn WriteOk i f)
          = Some (JSON_stringify (filter (\<lambda>e. \<not> loose_eq tn (email_id e) i) (readDatabase f)))
        \<and> readDatabase (fst (deleteEmailById tn WriteOk i f))
          = filter (\<lambda>e. \<not> loose_eq tn (email_id e) i) (readDatabase f))
   \<and> (\<not> snd (deleteEmailById tn w i f) \<longrightarrow> fst (deleteEmailById tn w i f) = f)"
  by (simp add: addEmail_WriteOk readDatabase_stringify deleteEmailById_def writeDatabase_def
        Let_def)

theorem mutation_rewrites_file_witness:
  "snd (deleteEmailById sample_toNumber WriteOk stored_id_string (db sample_world))
   \<and> fst (deleteEmailById sample_toNumber WriteOk stored_id_string (db sample_world))
       = Some (JSON_stringify [])
   \<and> \<not> snd (deleteEmailById sample_toNumber WriteOk ''17'' (db sample_world))
   \<and> fst (deleteEmailById sample_toNumber WriteOk ''17'' (db sample_world)) = db sample_world"
proof -
  have a: "snd (deleteEmailById sample_toNumber WriteOk stored_id_string (db sample_world))"
    by (simp add: delete_sample)
  have b: "\<not> snd (deleteEmailById sample_toNumber WriteOk ''17'' (db sample_world))"
    by (simp add: deleteEmailById_def sample_world_def readDatabase_stringify loose_eq_def
        sample_toNumber_def stored_email_def Let_def)
  from mutation_rewrites_file [where f = "db sample_world" and tn = sample_toNumber
      and i = stored_id_string] a
  have c: "fst (deleteEmailById sample_toNumber WriteOk stored_id_string (db sample_world))
       = Some (JSON_stringify [])"
    by (simp add: delete_sample)
  from mutation_rewrites_file [where f = "db sample_world" and tn = sample_toNumber
      and i = "''17''" and w = WriteOk] b
  have d: "fst (deleteEmailById sample_toNumber WriteOk ''17'' (db sample_world)) = db sample_world"
    by blast
  from a b c d show ?thesis by blast
qed

section \<open>Properties of sending\<close>

lemma send_email_handler_invalid:
  assumes "falsy to \<or> falsy subj \<or> falsy msg \<or> \<not> emailRegex_test (the to)"
  shows "fst (send_email_handler utf8 env to subj msg files w) = w"
    and "statusCode (snd (send_email_handler utf8 env to subj msg files w)) = 400"
  using assms by (auto simp: send_email_handler_def)

lemma send_email_handler_rejected:
  assumes "\<not> falsy to" "\<not> falsy subj" "\<not> falsy msg" "emailRegex_test (the to)"
    and "smtp env = Rejected err"
  shows "statusCode (snd (send_email_handler utf8 env to subj msg files w)) = 500"
    and "db (fst (send_email_handler utf8 env to subj msg files w)) = db w"
  using assms by (simp_all add: send_email_handler_def Let_def)

lemma send_email_handler_delivered:
  assumes "\<not> falsy to" "\<not> falsy subj" "\<not> falsy msg" "emailRegex_test (the to)"
    and "smtp env = Delivered mid"
  shows "statusCode (snd (send_email_handler utf8 env to subj msg files w)) = 200"
    and "db (fst (send_email_handler utf8 env to subj msg files w)) =
           fst (addEmail (fresh_id env) (timestamp env) (write_result env)
                  \<lparr>rcpt_to = the to, subject = the subj, message = the msg,
                   attachments = map (\<lambda>file. utf8 (originalname file)) files,
                   messageId = mid, status = ''sent''\<rparr> (db w))"
  using assms by (simp_all add: send_email_handler_def Let_def split_def comp_def)

lemma send_email_handler_200:
  assumes "statusCode (snd (send_email_handler utf8 env to subj msg files w)) = 200"
  shows "\<not> falsy to \<and> \<not> falsy subj \<and> \<not> falsy msg \<and> emailRegex_test (the to)
         \<and> (\<exists>mid. smtp env = Delivered mid)"
proof -
  have v: "\<not> (falsy to \<or> falsy subj \<or> falsy msg \<or> \<not> emailRegex_test (the to))"
    using assms send_email_handler_invalid(2) [of to subj msg utf8 env files w] by auto
  have "\<exists>mid. smtp env = Delivered mid"
  proof (cases "smtp env")
    case (Delivered mid)
    then show ?thesis by blast
  next
    case (Rejected err)
    with v assms send_email_handler_rejected(1) [of to subj msg env err utf8 files w]
    show ?thesis by simp
  qed
  with v show ?thesis by blast
qed

lemma sample_recipient_ok: "emailRegex_test ''amy@example.org''"
  by code_simp

lemma sample_recipient_bad: "\<not> emailRegex_test ''amy@example''"
  by code_simp

text \<open>
  C1 as stated (after every mutation the file is the encoding of the in-memory list)
  fails when \<^verbatim>\<open>fs.writeFileSync\<close> throws: \<open>writeDatabase\<close> swallows the exception and
  \<open>addEmail\<close> drops its result, so the send is answered 200 while the file is the old one
  and encodes no list that starts with a new record.
\<close>

theorem mutation_write_failure_counterexample:
  "statusCode (snd (send_email_handler (\<lambda>s. s)
       (sample_env\<lparr>write_result := WriteThrows (db sample_world)\<rparr>)
       (Some ''amy@example.org'') (Some ''Report'') (Some ''Second mail'') [] sample_world)) = 200
   \<and> db (fst (send_email_handler (\<lambda>s. s)
       (sample_env\<lparr>write_result := WriteThrows (db sample_world)\<rparr>)
       (Some ''amy@example.org'') (Some ''Report'') (Some ''Second mail'') [] sample_world))
      = Some (JSON_stringify [stored_email])
   \<and> (\<forall>e. db (fst (send_email_handler (\<lambda>s. s)
       (sample_env\<lparr>write_result := WriteThrows (db sample_world)\<rparr>)
       (Some ''amy@example.org'') (Some ''Report'') (Some ''Second mail'') [] sample_world))
      \<noteq> Some (JSON_stringify (e # readDatabase (db sample_world))))"
  by (simp add: send_email_handler_def falsy_def sample_recipient_ok sample_env_def Let_def
        split_def sample_world_def readDatabase_def addEmail_def writeDatabase_def
        JSON_stringify_def)

lemma sample_upload_ok: "allowedTypes_test ''notes.txt''"
  by code_simp

lemma sample_upload_bad: "\<not> allowedTypes_test ''notes.exe''"
  by code_simp

text \<open>
  C2, as the code has it. The route runs the upload middleware before the handler. A
  send request whose upload the middleware accepts and whose \<^verbatim>\<open>to\<close>, \<^verbatim>\<open>subject\<close> or
  \<^verbatim>\<open>message\<close> is missing or empty, or whose \<^verbatim>\<open>to\<close> does not match the email pattern, is
  answered 400 by the handler; one whose upload the middleware refuses is answered 500
  by the error handler. Either way nothing is handed to the SMTP transport and the store
  file is unchanged.
\<close>

theorem invalid_send_rejected:
  assumes "falsy to \<or> falsy subj \<or> falsy msg \<or> (\<exists>t. to = Some t \<and> \<not> emailRegex_test t)"
  shows "(upload_array 0 parts = Inr files \<longrightarrow>
            statusCode (snd (post_send_email utf8 env to subj msg parts w)) = 400)
       \<and> (upload_array 0 parts = Inl e \<longrightarrow>
            post_send_email utf8 env to subj msg parts w
              = (w, \<lparr>statusCode = 500, body = DefaultErrorPage\<rparr>))
       \<and> outbox (fst (post_send_email utf8 env to subj msg parts w)) = outbox w
       \<and> db (fst (post_send_email utf8 env to subj msg parts w)) = db w
       \<and> statusCode (snd (send_email_handler utf8 env to subj msg uploadedFiles w)) = 400
       \<and> outbox (fst (send_email_handler utf8 env to subj msg uploadedFiles w)) = outbox w
       \<and> db (fst (send_email_handler utf8 env to subj msg uploadedFiles w)) = db w"
proof -
  from assms have v: "falsy to \<or> falsy subj \<or> falsy msg \<or> \<not> emailRegex_test (the to)"
    by auto
  note h = send_email_handler_invalid [OF v]
  have a: "upload_array 0 parts = Inr files \<longrightarrow>
            statusCode (snd (post_send_email utf8 env to subj msg parts w)) = 400"
    by (simp add: post_send_email_def h(2))
  have b: "upload_array 0 parts = Inl e \<longrightarrow>
            post_send_email utf8 env to subj msg parts w
              = (w, \<lparr>statusCode = 500, body = DefaultErrorPage\<rparr>)"
    by (simp add: post_send_email_def)
  have c: "fst (post_send_email utf8 env to subj msg parts w) = w"
    by (simp add: post_send_email_def h(1) split: sum.splits)
  from a b c h [of utf8 env uploadedFiles w] show ?thesis by simp
qed

theorem invalid_send_rejected_witness:
  "(falsy (Some ''amy@example'') \<or> falsy (Some ''Report'') \<or> falsy (Some ''Second mail'')
      \<or> (\<exists>t. Some ''amy@example'' = Some t \<and> \<not> emailRegex_test t))
   \<and> upload_array 0 [sample_upload] = Inr [sample_upload]
   \<and> statusCode (snd (post_send_email (\<lambda>s. s) sample_env (Some ''amy@example'') (Some ''Report'')
        (Some ''Second mail'') [sample_upload] sample_world)) = 400
   \<and> db (fst (post_send_email (\<lambda>s. s) sample_env (Some ''amy@example'') (Some ''Report'')
        (Some ''Second mail'') [sample_upload] sample_world)) = db sample_world
   \<and> outbox (fst (post_send_email (\<lambda>s. s) sample_env (Some ''amy@example'') (Some ''Report'')
        (Some ''Second mail'') [sample_upload] sample_world)) = []"
proof -
  have h: "falsy (Some ''amy@example'') \<or> falsy (Some ''Report'') \<or> falsy (Some ''Second mail'')
      \<or> (\<exists>t. Some ''amy@example'' = Some t \<and> \<not> emailRegex_test t)"
    by (simp add: sample_recipient_bad)
  have u: "upload_array 0 [sample_upload] = Inr [sample_upload]"
    by (simp add: sample_upload_def sample_upload_ok limit_files_def limit_fileSize_def)
  note t = invalid_send_rejected [OF h, of "[sample_upload]" "[sample_upload]" "\<lambda>s. s"
      sample_env sample_world]
  from t u have s: "statusCode (snd (post_send_email (\<lambda>s. s) sample_env (Some ''amy@example'')
        (Some ''Report'') (Some ''Second mail'') [sample_upload] sample_world)) = 400"
    by blast
  from t have d: "db (fst (post_send_email (\<lambda>s. s) sample_env (Some ''amy@example'')
        (Some ''Report'') (Some ''Second mail'') [sample_upload] sample_world)) = db sample_world"
    by blast
  from t have "outbox (fst (post_send_email (\<lambda>s. s) sample_env (Some ''amy@example'')
        (Some ''Report'') (Some ''Second mail'') [sample_upload] sample_world))
      = outbox sample_world"
    by blast
  then have b: "outbox (fst (post_send_email (\<lambda>s. s) sample_env (Some ''amy@example'')
        (Some ''Report'') (Some ''Second mail'') [sample_upload] sample_world)) = []"
    by (simp add: sample_world_def)
  from h u s d b show ?thesis by blast
qed

text \<open>
  C2 as stated (every such request is answered 400) fails for a request whose upload
  the middleware refuses: with an empty \<^verbatim>\<open>to\<close> and six attachments, or with a recipient
  the pattern rejects and an attachment named \<^verbatim>\<open>notes.exe\<close>, the route answers 500 and the
  handler's 400 is never sent.
\<close>

theorem invalid_send_upload_refused_counterexample:
  "falsy (Some [])
   \<and> post_send_email (\<lambda>s. s) sample_env (Some []) (Some ''Report'') (Some ''Second mail'')
        (replicate 6 sample_upload) sample_world
      = (sample_world, \<lparr>statusCode = 500, body = DefaultErrorPage\<rparr>)
   \<and> statusCode (snd (post_send_email (\<lambda>s. s) sample_env (Some []) (Some ''Report'')
        (Some ''Second mail'') (replicate 6 sample_upload) sample_world)) \<noteq> 400
   \<and> \<not> emailRegex_test ''amy@example''
   \<and> post_send_email (\<lambda>s. s) sample_env (Some ''amy@example'') (Some ''Report'')
        (Some ''Second mail'') [sample_upload\<lparr>originalname := ''notes.exe''\<rparr>] sample_world
      = (sample_world, \<lparr>statusCode = 500, body = DefaultErrorPage\<rparr>)
   \<and> statusCode (snd (post_send_email (\<lambda>s. s) sample_env (Some ''amy@example'') (Some ''Report'')
        (Some ''Second mail'') [sample_upload\<lparr>originalname := ''notes.exe''\<rparr>] sample_world))
      \<noteq> 400"
proof -
  have six: "replicate 6 sample_upload
      = [sample_upload, sample_upload, sample_upload, sample_upload, sample_upload, sample_upload]"
    by (simp add: numeral_eq_Suc)
  have a: "upload_array 0 (replicate 6 sample_upload) = Inl LIMIT_FILE_COUNT"
    unfolding six
    by (simp add: sample_upload_def sample_upload_ok limit_files_def limit_fileSize_def)
  have b: "upload_array 0 [sample_upload\<lparr>originalname := ''notes.exe''\<rparr>]
             = Inl FileTypeNotAllowed"
    by (simp add: sample_upload_def sample_upload_bad limit_files_def)
  have r: "post_send_email (\<lambda>s. s) sample_env (Some []) (Some ''Report'') (Some ''Second mail'')
        (replicate 6 sample_upload) sample_world
      = (sample_world, \<lparr>statusCode = 500, body = DefaultErrorPage\<rparr>)"
    by (simp only: post_send_email_def a sum.case)
  have t: "post_send_email (\<lambda>s. s) sample_env (Some ''amy@example'') (Some ''Report'')
        (Some ''Second mail'') [sample_upload\<lparr>originalname := ''notes.exe''\<rparr>] sample_world
      = (sample_world, \<lparr>statusCode = 500, body = DefaultErrorPage\<rparr>)"
    by (simp only: post_send_email_def b sum.case)
  have f: "falsy (Some [])" by (simp add: falsy_def)
  show ?thesis
    by (simp only: r t) (simp add: f sample_recipient_bad)
qed

text \<open>
  C3, as the code has it. On a successful send whose write succeeds, the new record is
  put in front of the stored list (index 0), and every record stored before keeps its
  order and moves one position back.
\<close>

theorem send_puts_record_first:
  assumes "statusCode (snd (send_email_handler utf8 env to subj msg files w)) = 200"
    and "write_result env = WriteOk"
  shows "\<exists>e. email_id e = fresh_id env
           \<and> readDatabase (db (fst (send_email_handler utf8 env to subj msg files w)))
               = e # readDatabase (db w)
           \<and> readDatabase (db (fst (send_email_handler utf8 env to subj msg files w))) ! 0 = e
           \<and> (\<forall>i < length (readDatabase (db w)).
                readDatabase (db (fst (send_email_handler utf8 env to subj msg files w))) ! Suc i
                  = readDatabase (db w) ! i)"
proof -
  from send_email_handler_200 [OF assms(1)] obtain mid where
    v: "\<not> falsy to" "\<not> falsy subj" "\<not> falsy msg" "emailRegex_test (the to)"
    and m: "smtp env = Delivered mid" by blast
  let ?d = "\<lparr>rcpt_to = the to, subject = the subj, message = the msg,
             attachments = map (\<lambda>file. utf8 (originalname file)) files,
             messageId = mid, status = ''sent''\<rparr>"
  let ?e = "newEmail (fresh_id env) (timestamp env) ?d"
  have "readDatabase (db (fst (send_email_handler utf8 env to subj msg files w)))
          = ?e # readDatabase (db w)"
    by (simp add: send_email_handler_delivered(2) [OF v m] assms(2) addEmail_WriteOk
          readDatabase_stringify)
  moreover have "email_id ?e = fresh_id env" by (simp add: newEmail_def)
  ultimately show ?thesis by (intro exI [of _ ?e]) simp
qed

theorem send_puts_record_first_witness:
  "statusCode (snd (send_email_handler (\<lambda>s. s) sample_env (Some ''amy@example.org'')
       (Some ''Report'') (Some ''Second mail'') [sample_upload] sample_world)) = 200
   \<and> write_result sample_env = WriteOk
   \<and> (\<exists>e. email_id e = fresh_id sample_env
          \<and> readDatabase (db (fst (send_email_handler (\<lambda>s. s) sample_env
                (Some ''amy@example.org'') (Some ''Report'') (Some ''Second mail'')
                [sample_upload] sample_world))) = [e, stored_email])"
proof -
  have s: "statusCode (snd (send_email_handler (\<lambda>s. s) sample_env (Some ''amy@example.org'')
       (Some ''Report'') (Some ''Second mail'') [sample_upload] sample_world)) = 200"
    by (simp add: send_email_handler_def falsy_def sample_recipient_ok sample_env_def Let_def
          split_def)
  have w: "write_result sample_env = WriteOk" by (simp add: sample_env_def)
  from send_puts_record_first [OF s w] obtain e where
    "email_id e = fresh_id sample_env"
    "readDatabase (db (fst (send_email_handler (\<lambda>s. s) sample_env
        (Some ''amy@example.org'') (Some ''Report'') (Some ''Second mail'')
        [sample_upload] sample_world))) = e # readDatabase (db sample_world)"
    by blast
  then have "\<exists>e. email_id e = fresh_id sample_env
          \<and> readDatabase (db (fst (send_email_handler (\<lambda>s. s) sample_env
                (Some ''amy@example.org'') (Some ''Report'') (Some ''Second mail'')
                [sample_upload] sample_world))) = [e, stored_email]"
    by (simp add: sample_world_def readDatabase_stringify)
  with s w show ?thesis by blast
qed

text \<open>
  C3 as stated (the new record is appended at the end and the stored records keep their
  positions) fails: after a send into a store of one record, that record is no longer at
  index 0, and it, not the new record, is the last one.
\<close>

theorem append_on_send_counterexample:
  "statusCode (snd (send_email_handler (\<lambda>s. s) sample_env (Some ''amy@example.org'')
       (Some ''Report'') (Some ''Second mail'') [] sample_world)) = 200
   \<and> readDatabase (db sample_world) = [stored_email]
   \<and> readDatabase (db (fst (send_email_handler (\<lambda>s. s) sample_env (Some ''amy@example.org'')
       (Some ''Report'') (Some ''Second mail'') [] sample_world))) ! 0 \<noteq> stored_email
   \<and> last (readDatabase (db (fst (send_email_handler (\<lambda>s. s) sample_env
       (Some ''amy@example.org'') (Some ''Report'') (Some ''Second mail'') [] sample_world))))
      = stored_email"
  by (simp add: send_email_handler_def falsy_def sample_recipient_ok sample_env_def Let_def
        split_def sample_world_def readDatabase_stringify addEmail_WriteOk newEmail_def
        stored_email_def)

text \<open>
  C6. After a successful send whose write succeeds, the record written to the store file
  carries the message id the transport returned, the status \<^verbatim>\<open>sent\<close>, the recipient, the
  subject, the body text and the list of the attachments' file names.
\<close>

theorem sent_record_fields:
  assumes "statusCode (snd (send_email_handler utf8 env to subj msg files w)) = 200"
    and "write_result env = WriteOk"
  shows "\<exists>e mid t s m.
           smtp env = Delivered mid \<and> to = Some t \<and> subj = Some s \<and> msg = Some m
         \<and> db (fst (send_email_handler utf8 env to subj msg files w))
             = Some (JSON_stringify (e # readDatabase (db w)))
         \<and> messageId e = mid \<and> status e = ''sent'' \<and> rcpt_to e = t \<and> subject e = s
         \<and> message e = m \<and> attachments e = map (\<lambda>file. utf8 (originalname file)) files"
proof -
  from send_email_handler_200 [OF assms(1)] obtain mid where
    v: "\<not> falsy to" "\<not> falsy subj" "\<not> falsy msg" "emailRegex_test (the to)"
    and m: "smtp env = Delivered mid" by blast
  from v obtain t s b where f: "to = Some t" "subj = Some s" "msg = Some b"
    by (auto simp: falsy_def split: option.splits)
  let ?d = "\<lparr>rcpt_to = the to, subject = the subj, message = the msg,
             attachments = map (\<lambda>file. utf8 (originalname file)) files,
             messageId = mid, status = ''sent''\<rparr>"
  let ?e = "newEmail (fresh_id env) (timestamp env) ?d"
  have "db (fst (send_email_handler utf8 env to subj msg files w))
          = Some (JSON_stringify (?e # readDatabase (db w)))"
    by (simp add: send_email_handler_delivered(2) [OF v m] assms(2) addEmail_WriteOk)
  moreover have "messageId ?e = mid \<and> status ?e = ''sent'' \<and> rcpt_to ?e = t \<and> subject ?e = s
         \<and> message ?e = b \<and> attachments ?e = map (\<lambda>file. utf8 (originalname file)) files"
    by (simp add: newEmail_def f)
  ultimately show ?thesis using m f by blast
qed

theorem sent_record_fields_witness:
  "statusCode (snd (send_email_handler (\<lambda>s. s) sample_env (Some ''amy@example.org'')
       (Some ''Report'') (Some ''Second mail'') [sample_upload] sample_world)) = 200
   \<and> write_result sample_env = WriteOk
   \<and> (\<exists>e. db (fst (send_email_handler (\<lambda>s. s) sample_env (Some ''amy@example.org'')
              (Some ''Report'') (Some ''Second mail'') [sample_upload] sample_world))
            = Some (JSON_stringify [e, stored_email])
          \<and> messageId e = ''<m2@mailhog>'' \<and> status e = ''sent''
          \<and> rcpt_to e = ''amy@example.org'' \<and> subject e = ''Report''
          \<and> message e = ''Second mail'' \<and> attachments e = [''notes.txt''])"
proof -
  have s: "statusCode (snd (send_email_handler (\<lambda>s. s) sample_env (Some ''amy@example.org'')
       (Some ''Report'') (Some ''Second mail'') [sample_upload] sample_world)) = 200"
    by (simp add: send_email_handler_def falsy_def sample_recipient_ok sample_env_def Let_def
          split_def)
  have w: "write_result sample_env = WriteOk" by (simp add: sample_env_def)
  from sent_record_fields [OF s w] obtain e :: SentEmail and mid t u m where
    "smtp sample_env = Delivered mid" "Some ''amy@example.org'' = Some t"
    "Some ''Report'' = Some u" "Some ''Second mail'' = Some m"
    "db (fst (send_email_handler (\<lambda>s. s) sample_env (Some ''amy@example.org'')
              (Some ''Report'') (Some ''Second mail'') [sample_upload] sample_world))
       = Some (JSON_stringify (e # readDatabase (db sample_world)))"
    "messageId e = mid" "status e = ''sent''" "rcpt_to e = t" "subject e = u" "message e = m"
    "attachments e = map (\<lambda>file. originalname file) [sample_upload]"
    by blast
  then have "db (fst (send_email_handler (\<lambda>s. s) sample_env (Some ''amy@example.org'')
              (Some ''Report'') (Some ''Second mail'') [sample_upload] sample_world))
            = Some (JSON_stringify [e, stored_email])
          \<and> messageId e = ''<m2@mailhog>'' \<and> status e = ''sent''
          \<and> rcpt_to e = ''amy@example.org'' \<and> subject e = ''Report''
          \<and> message e = ''Second mail'' \<and> attachments e = [''notes.txt'']"
    by (simp add: sample_world_def readDatabase_stringify sample_env_def sample_upload_def)
  with s w show ?thesis by blast
qed

lemma post_send_email_invalid:
  assumes "falsy to \<or> falsy subj \<or> falsy msg \<or> \<not> emailRegex_test (the to)"
  shows "fst (post_send_email utf8 env to subj msg parts w) = w"
    and "statusCode (snd (post_send_email utf8 env to subj msg parts w)) \<in> {400, 500}"
  using send_email_handler_invalid [OF assms]
  by (simp_all add: post_send_email_def split: sum.splits)

section \<open>The email pattern\<close>

text \<open>
  The matcher agrees with the reading of the pattern: a non-empty local part, \<^verbatim>\<open>@\<close>, a
  non-empty piece, a dot and a non-empty rest, none of them with white space or \<^verbatim>\<open>@\<close>.
\<close>

lemma many1_iff:
  "many1 k r s \<longleftrightarrow> (\<exists>a b. s = a @ b \<and> a \<noteq> [] \<and> list_all k a \<and> matches r b)"
proof (induction s)
  case Nil
  then show ?case by simp
next
  case (Cons x xs)
  show ?case
  proof
    assume "many1 k r (x # xs)"
    then have kx: "k x" and d: "matches r xs \<or> many1 k r xs" by simp_all
    from d show "\<exists>a b. x # xs = a @ b \<and> a \<noteq> [] \<and> list_all k a \<and> matches r b"
    proof
      assume "matches r xs"
      with kx have "x # xs = [x] @ xs \<and> [x] \<noteq> [] \<and> list_all k [x] \<and> matches r xs" by simp
      then show ?thesis by blast
    next
      assume "many1 k r xs"
      with Cons.IH obtain a b where "xs = a @ b" "list_all k a" "matches r b" by blast
      with kx have "x # xs = (x # a) @ b \<and> x # a \<noteq> [] \<and> list_all k (x # a) \<and> matches r b"
        by simp
      then show ?thesis by blast
    qed
  next
    assume "\<exists>a b. x # xs = a @ b \<and> a \<noteq> [] \<and> list_all k a \<and> matches r b"
    then obtain a b where h: "x # xs = a @ b" "a \<noteq> []" "list_all k a" "matches r b" by blast
    then obtain a' where a: "a = x # a'" "xs = a' @ b" by (cases a) auto
    show "many1 k r (x # xs)"
    proof (cases "a' = []")
      case True
      with a h show ?thesis by simp
    next
      case False
      with a h have "many1 k r xs" using Cons.IH by auto
      with a h show ?thesis by simp
    qed
  qed
qed

lemma emailRegex_test_iff:
  "emailRegex_test s \<longleftrightarrow>
     (\<exists>a b c. s = a @ ''@'' @ b @ ''.'' @ c \<and> a \<noteq> [] \<and> b \<noteq> [] \<and> c \<noteq> []
        \<and> list_all notSpaceAt a \<and> list_all notSpaceAt b \<and> list_all notSpaceAt c)"
proof -
  have 3: "matches [Plus notSpaceAt] t \<longleftrightarrow> t \<noteq> [] \<and> list_all notSpaceAt t" for t
    by (auto simp: many1_iff)
  have 2: "matches [Lit CHR ''.'', Plus notSpaceAt] t \<longleftrightarrow>
             (\<exists>c. t = ''.'' @ c \<and> c \<noteq> [] \<and> list_all notSpaceAt c)" for t
    using 3 by (cases t) auto
  have 1: "matches [Lit CHR ''@'', Plus notSpaceAt, Lit CHR ''.'', Plus notSpaceAt] t \<longleftrightarrow>
             (\<exists>b c. t = ''@'' @ b @ ''.'' @ c \<and> b \<noteq> [] \<and> c \<noteq> []
                \<and> list_all notSpaceAt b \<and> list_all notSpaceAt c)" for t
  proof (cases t)
    case Nil
    then show ?thesis by simp
  next
    case (Cons x u)
    have "many1 notSpaceAt [Lit CHR ''.'', Plus notSpaceAt] u \<longleftrightarrow>
            (\<exists>b c. u = b @ ''.'' @ c \<and> b \<noteq> [] \<and> c \<noteq> []
                \<and> list_all notSpaceAt b \<and> list_all notSpaceAt c)"
      unfolding many1_iff 2 by auto
    with Cons show ?thesis by auto
  qed
  show ?thesis
    unfolding emailRegex_test_def emailRegex_def matches.simps many1_iff 1 by auto
qed

section \<open>Properties of the history routes\<close>

lemma slice_nonneg:
  assumes "0 \<le> a" and "a \<le> b"
  shows "slice xs a b = take (nat (b - a)) (drop (nat a) xs)"
proof (cases "a \<le> int (length xs)")
  case False
  then have "drop (nat a) xs = []" "drop (length xs) xs = []" by simp_all
  with False assms show ?thesis by (simp add: slice_def Let_def min_def)
next
  case True
  show ?thesis
  proof (cases "b \<le> int (length xs)")
    case True
    with \<open>a \<le> int (length xs)\<close> assms show ?thesis by (simp add: slice_def Let_def min_def)
  next
    case False
    then have "length (drop (nat a) xs) \<le> nat (b - a)" "length (drop (nat a) xs) \<le> nat (int (length xs) - a)"
      using assms True by simp_all
    then have "take (nat (b - a)) (drop (nat a) xs) = drop (nat a) xs"
      "take (nat (int (length xs) - a)) (drop (nat a) xs) = drop (nat a) xs"
      by simp_all
    with False True assms show ?thesis by (simp add: slice_def Let_def min_def)
  qed
qed

lemma ceil_bounds:
  fixes n l :: int
  assumes "0 < l"
  shows "n \<le> \<lceil>rat_of_int n / rat_of_int l\<rceil> * l \<and> \<lceil>rat_of_int n / rat_of_int l\<rceil> * l < n + l"
proof -
  let ?k = "\<lceil>rat_of_int n / rat_of_int l\<rceil>"
  have l: "0 < rat_of_int l" using assms by simp
  have "rat_of_int n / rat_of_int l \<le> rat_of_int ?k" by (rule le_of_int_ceiling)
  then have "rat_of_int n \<le> rat_of_int ?k * rat_of_int l"
    using l pos_divide_le_eq [of "rat_of_int l" "rat_of_int n" "rat_of_int ?k"] by blast
  then have "rat_of_int n \<le> rat_of_int (?k * l)" by simp
  then have a: "n \<le> ?k * l" by (simp only: of_int_le_iff)
  have "rat_of_int ?k - 1 < rat_of_int n / rat_of_int l" using ceiling_correct [of "rat_of_int n / rat_of_int l"] by blast
  then have "(rat_of_int ?k - 1) * rat_of_int l < rat_of_int n"
    using l pos_less_divide_eq [of "rat_of_int l" "rat_of_int ?k - 1" "rat_of_int n"] by blast
  then have "rat_of_int (?k * l) < rat_of_int (n + l)" by (simp add: algebra_simps)
  then have b: "?k * l < n + l" by (simp only: of_int_less_iff)
  from a b show ?thesis by blast
qed

lemma ceil_rat_real:
  "\<lceil>rat_of_int n / rat_of_int l\<rceil> = \<lceil>real_of_int n / real_of_int l\<rceil>"
  by (simp add: ceiling_divide_eq_div)

lemma getEmails_page:
  assumes "1 \<le> p" and "1 \<le> l"
  shows "emails (getEmails p l f) = take (nat l) (drop (nat ((p - 1) * l)) (readDatabase f))"
proof -
  have "0 \<le> (p - 1) * l" using assms by simp
  moreover have "(p - 1) * l \<le> (p - 1) * l + l" using assms by simp
  ultimately have "slice (readDatabase f) ((p - 1) * l) ((p - 1) * l + l)
      = take (nat ((p - 1) * l + l - (p - 1) * l)) (drop (nat ((p - 1) * l)) (readDatabase f))"
    by (rule slice_nonneg)
  then show ?thesis by (simp add: getEmails_def Let_def)
qed

text \<open>
  C4. For a page \<open>p \<ge> 1\<close> and a limit \<open>l \<ge> 1\<close>, \<open>getEmails\<close> returns the records at offsets
  \<open>(p - 1) * l\<close> up to \<open>p * l - 1\<close> of the stored list (fewer at its end), the length of
  the stored list as total, and the ceiling of total / l as the number of pages, which
  is the least \<open>k\<close> with \<open>total \<le> k * l\<close>; the route reports
  \<open>hasNext = (p < totalPages)\<close> and \<open>hasPrev = (p > 1)\<close>.
\<close>

theorem offset_pagination:
  assumes "1 \<le> p" and "1 \<le> l"
  shows "emails (getEmails p l f) = take (nat l) (drop (nat ((p - 1) * l)) (readDatabase f))
       \<and> length (emails (getEmails p l f))
           = min (nat l) (length (readDatabase f) - nat ((p - 1) * l))
       \<and> (\<forall>i < length (emails (getEmails p l f)).
             emails (getEmails p l f) ! i = readDatabase f ! (nat ((p - 1) * l) + i))
       \<and> total (getEmails p l f) = length (readDatabase f)
       \<and> totalPages (getEmails p l f)
           = Num \<lceil>real (length (readDatabase f)) / real_of_int l\<rceil>
       \<and> int (length (readDatabase f)) \<le> \<lceil>real (length (readDatabase f)) / real_of_int l\<rceil> * l
       \<and> \<lceil>real (length (readDatabase f)) / real_of_int l\<rceil> * l < int (length (readDatabase f)) + l
       \<and> get_emails_handler (Some p) (Some l) f
           = \<lparr>statusCode = 200,
              body = EmailsBody (take (nat l) (drop (nat ((p - 1) * l)) (readDatabase f)))
                \<lparr>currentPage = p,
                 pg_totalPages = Num \<lceil>real (length (readDatabase f)) / real_of_int l\<rceil>,
                 totalEmails = length (readDatabase f),
                 hasNext = (p < \<lceil>real (length (readDatabase f)) / real_of_int l\<rceil>),
                 hasPrev = (1 < p)\<rparr>\<rparr>"
proof -
  let ?xs = "readDatabase f"
  let ?k = "\<lceil>real (length ?xs) / real_of_int l\<rceil>"
  have e: "emails (getEmails p l f) = take (nat l) (drop (nat ((p - 1) * l)) ?xs)"
    by (rule getEmails_page [OF assms])
  have n: "length (emails (getEmails p l f)) = min (nat l) (length ?xs - nat ((p - 1) * l))"
    by (simp add: e min.commute)
  have i: "\<forall>i < length (emails (getEmails p l f)).
             emails (getEmails p l f) ! i = ?xs ! (nat ((p - 1) * l) + i)"
    by (auto simp: e)
  have t: "total (getEmails p l f) = length ?xs" by (simp add: getEmails_def Let_def)
  have r: "\<lceil>rat_of_int (int (length ?xs)) / rat_of_int l\<rceil> = ?k"
    using ceil_rat_real [of "int (length ?xs)" l] by simp
  have tp: "totalPages (getEmails p l f) = Num ?k"
    using assms r by (simp add: getEmails_def Let_def Math_ceil_div_def)
  have b: "int (length ?xs) \<le> ?k * l \<and> ?k * l < int (length ?xs) + l"
    using ceil_bounds [of l "int (length ?xs)"] assms r by simp
  have h: "get_emails_handler (Some p) (Some l) f
           = \<lparr>statusCode = 200,
              body = EmailsBody (take (nat l) (drop (nat ((p - 1) * l)) ?xs))
                \<lparr>currentPage = p, pg_totalPages = Num ?k, totalEmails = length ?xs,
                 hasNext = (p < ?k), hasPrev = (1 < p)\<rparr>\<rparr>"
    using assms by (simp add: get_emails_handler_def or_default_def Let_def e t tp)
        (simp add: getEmails_def Let_def)
  from e n i t tp b h show ?thesis by blast
qed

theorem offset_pagination_witness:
  "(1::int) \<le> 2 \<and> (1::int) \<le> 2
   \<and> get_emails_handler (Some 2) (Some 2)
        (Some (JSON_stringify [stored_email\<lparr>email_id := 3\<rparr>, stored_email\<lparr>email_id := 2\<rparr>,
                               stored_email]))
      = \<lparr>statusCode = 200,
         body = EmailsBody [stored_email]
           \<lparr>currentPage = 2, pg_totalPages = Num 2, totalEmails = 3,
            hasNext = False, hasPrev = True\<rparr>\<rparr>"
proof -
  have a: "(1::int) \<le> 2" by simp
  have c: "\<lceil>(3::real) / 2\<rceil> = 2" by (simp add: ceiling_divide_eq_div_numeral)
  from offset_pagination [OF a a, of "Some (JSON_stringify [stored_email\<lparr>email_id := 3\<rparr>,
      stored_email\<lparr>email_id := 2\<rparr>, stored_email])"]
  have "get_emails_handler (Some 2) (Some 2)
        (Some (JSON_stringify [stored_email\<lparr>email_id := 3\<rparr>, stored_email\<lparr>email_id := 2\<rparr>,
                               stored_email]))
      = \<lparr>statusCode = 200,
         body = EmailsBody [stored_email]
           \<lparr>currentPage = 2, pg_totalPages = Num 2, totalEmails = 3,
            hasNext = False, hasPrev = True\<rparr>\<rparr>"
    by (simp add: readDatabase_stringify c)
  with a show ?thesis by blast
qed

text \<open>
  C5, as the code has it. When the write succeeds, \<^verbatim>\<open>DELETE /api/emails/:id\<close> removes
  exactly the records whose id matches the given one and keeps the others in their
  order; it answers 200 whenever a stored record matches. When no stored record matches
  it answers 404 and leaves the file as it is.
\<close>

theorem delete_by_id:
  "((\<exists>e \<in> set (readDatabase f). loose_eq tn (email_id e) i) \<longrightarrow>
      delete_email_handler tn WriteOk i f
        = (Some (JSON_stringify (filter (\<lambda>e. \<not> loose_eq tn (email_id e) i) (readDatabase f))),
           \<lparr>statusCode = 200, body = MessageBody ''Email deleted successfully''\<rparr>)
      \<and> statusCode (snd (delete_email_handler tn w i f)) = 200
      \<and> readDatabase (fst (delete_email_handler tn WriteOk i f))
          = filter (\<lambda>e. \<not> loose_eq tn (email_id e) i) (readDatabase f)
      \<and> set (readDatabase (fst (delete_email_handler tn WriteOk i f)))
          = {e \<in> set (readDatabase f). \<not> loose_eq tn (email_id e) i}
      \<and> subseq (readDatabase (fst (delete_email_handler tn WriteOk i f))) (readDatabase f))
   \<and> (\<not> (\<exists>e \<in> set (readDatabase f). loose_eq tn (email_id e) i) \<longrightarrow>
      delete_email_handler tn w i f
        = (f, \<lparr>statusCode = 404, body = ErrorBody ''Email not found''\<rparr>))"
proof (cases "\<exists>e \<in> set (readDatabase f). loose_eq tn (email_id e) i")
  case True
  then obtain e where "e \<in> set (readDatabase f)" "loose_eq tn (email_id e) i" by blast
  from deleteEmailById_some [OF this, of WriteOk]
  have d: "delete_email_handler tn WriteOk i f
        = (Some (JSON_stringify (filter (\<lambda>e. \<not> loose_eq tn (email_id e) i) (readDatabase f))),
           \<lparr>statusCode = 200, body = MessageBody ''Email deleted successfully''\<rparr>)"
    by (simp add: delete_email_handler_def writeDatabase_def)
  from deleteEmailById_some [OF \<open>e \<in> set (readDatabase f)\<close> \<open>loose_eq tn (email_id e) i\<close>, of w]
  have c: "statusCode (snd (delete_email_handler tn w i f)) = 200"
    by (simp add: delete_email_handler_def)
  show ?thesis using True by (simp add: d c readDatabase_stringify)
next
  case False
  then have "\<forall>e \<in> set (readDatabase f). \<not> loose_eq tn (email_id e) i" by blast
  from deleteEmailById_none [OF this, of w] False show ?thesis
    by (simp add: delete_email_handler_def)
qed

theorem delete_by_id_witness:
  "(\<exists>e \<in> set (readDatabase (db sample_world)). loose_eq sample_toNumber (email_id e) stored_id_string)
   \<and> delete_email_handler sample_toNumber WriteOk stored_id_string (db sample_world)
      = (Some (JSON_stringify []),
         \<lparr>statusCode = 200, body = MessageBody ''Email deleted successfully''\<rparr>)
   \<and> \<not> (\<exists>e \<in> set (readDatabase (db sample_world)). loose_eq sample_toNumber (email_id e) ''17'')
   \<and> delete_email_handler sample_toNumber (WriteThrows None) ''17'' (db sample_world)
      = (db sample_world, \<lparr>statusCode = 404, body = ErrorBody ''Email not found''\<rparr>)"
proof -
  have a: "\<exists>e \<in> set (readDatabase (db sample_world)).
             loose_eq sample_toNumber (email_id e) stored_id_string"
    by (simp add: sample_world_def readDatabase_stringify loose_eq_def sample_toNumber_def
          stored_id_string_def stored_email_def)
  have b: "\<not> (\<exists>e \<in> set (readDatabase (db sample_world)).
             loose_eq sample_toNumber (email_id e) ''17'')"
    by (simp add: sample_world_def readDatabase_stringify loose_eq_def sample_toNumber_def)
  have f: "filter (\<lambda>e. \<not> loose_eq sample_toNumber (email_id e) stored_id_string)
             (readDatabase (db sample_world)) = []"
    by (simp add: sample_world_def readDatabase_stringify loose_eq_def sample_toNumber_def
          stored_id_string_def stored_email_def)
  from delete_by_id [of "db sample_world" sample_toNumber stored_id_string "WriteThrows None"] a
  have c: "delete_email_handler sample_toNumber WriteOk stored_id_string (db sample_world)
      = (Some (JSON_stringify []),
         \<lparr>statusCode = 200, body = MessageBody ''Email deleted successfully''\<rparr>)"
    by (simp add: f)
  from delete_by_id [of "db sample_world" sample_toNumber "''17''" "WriteThrows None"] b
  have d: "delete_email_handler sample_toNumber (WriteThrows None) ''17'' (db sample_world)
      = (db sample_world, \<lparr>statusCode = 404, body = ErrorBody ''Email not found''\<rparr>)"
    by blast
  from a b c d show ?thesis by blast
qed

text \<open>
  C5 as stated (the matching records are removed and the answer is 200) fails when
  \<^verbatim>\<open>fs.writeFileSync\<close> throws: \<open>deleteEmailById\<close> drops the result of \<open>writeDatabase\<close>, the
  route answers 200 with its message of success, and the matching record is still in
  the file.
\<close>

theorem delete_write_failure_counterexample:
  "loose_eq sample_toNumber (email_id stored_email) stored_id_string
   \<and> delete_email_handler sample_toNumber (WriteThrows (db sample_world)) stored_id_string
        (db sample_world)
      = (db sample_world,
         \<lparr>statusCode = 200, body = MessageBody ''Email deleted successfully''\<rparr>)
   \<and> stored_email \<in> set (readDatabase (fst (delete_email_handler sample_toNumber
        (WriteThrows (db sample_world)) stored_id_string (db sample_world))))"
  by (simp add: delete_email_handler_def deleteEmailById_def writeDatabase_def
        sample_world_def readDatabase_stringify loose_eq_def sample_toNumber_def
        stored_id_string_def stored_email_def Let_def)

lemma find_loose_eq:
  assumes "r \<in> set xs" and "P r"
  shows "\<exists>e. find P xs = Some e \<and> P e \<and> e \<in> set xs"
  using assms by (induction xs) auto

text \<open>
  C10. Lookup and deletion compare the stored number with the string of the URL by
  \<^verbatim>\<open>==\<close>: when the string converts to the id of a stored record, \<^verbatim>\<open>GET /api/emails/:id\<close>
  answers 200 with a record of that id (that record when ids are distinct) and
  \<^verbatim>\<open>DELETE /api/emails/:id\<close> answers 200 and removes the record; neither answers 404.
\<close>

theorem loose_equality_matches:
  assumes "r \<in> set (readDatabase f)" and "tn s = Some (email_id r)"
  shows "(\<exists>e. get_email_handler tn s f = \<lparr>statusCode = 200, body = EmailBody e\<rparr>
              \<and> email_id e = email_id r \<and> e \<in> set (readDatabase f)
              \<and> (distinct (map email_id (readDatabase f)) \<longrightarrow> e = r))
       \<and> statusCode (snd (delete_email_handler tn w s f)) = 200
       \<and> r \<notin> set (readDatabase (fst (delete_email_handler tn WriteOk s f)))"
proof -
  have l: "loose_eq tn (email_id r) s" using assms(2) by (simp add: loose_eq_def)
  from find_loose_eq [OF assms(1), of "\<lambda>email. loose_eq tn (email_id email) s", OF l]
  obtain e where e: "find (\<lambda>email. loose_eq tn (email_id email) s) (readDatabase f) = Some e"
    "loose_eq tn (email_id e) s" "e \<in> set (readDatabase f)" by blast
  have i: "email_id e = email_id r" using e(2) assms(2) by (simp add: loose_eq_def)
  have u: "distinct (map email_id (readDatabase f)) \<longrightarrow> e = r"
    using i e(3) assms(1) by (auto simp: distinct_map dest: inj_onD)
  have g: "get_email_handler tn s f = \<lparr>statusCode = 200, body = EmailBody e\<rparr>"
    by (simp add: get_email_handler_def getEmailById_def e(1))
  have d: "statusCode (snd (delete_email_handler tn w s f)) = 200"
    using deleteEmailById_some [OF assms(1) l, of w] by (simp add: delete_email_handler_def)
  have "readDatabase (fst (delete_email_handler tn WriteOk s f))
          = filter (\<lambda>e. \<not> loose_eq tn (email_id e) s) (readDatabase f)"
    using deleteEmailById_some [OF assms(1) l, of WriteOk]
    by (simp add: delete_email_handler_def writeDatabase_def readDatabase_stringify)
  then have n: "r \<notin> set (readDatabase (fst (delete_email_handler tn WriteOk s f)))"
    using l by simp
  from g i e(3) u d n show ?thesis by blast
qed

theorem loose_equality_matches_witness:
  "stored_email \<in> set (readDatabase (db sample_world))
   \<and> sample_toNumber stored_id_string = Some (email_id stored_email)
   \<and> get_email_handler sample_toNumber stored_id_string (db sample_world)
       = \<lparr>statusCode = 200, body = EmailBody stored_email\<rparr>
   \<and> statusCode (snd (delete_email_handler sample_toNumber WriteOk stored_id_string
        (db sample_world))) = 200"
proof -
  have a: "stored_email \<in> set (readDatabase (db sample_world))"
    by (simp add: sample_world_def readDatabase_stringify)
  have b: "sample_toNumber stored_id_string = Some (email_id stored_email)"
    by (simp add: sample_toNumber_def stored_id_string_def stored_email_def)
  have c: "distinct (map email_id (readDatabase (db sample_world)))"
    by (simp add: sample_world_def readDatabase_stringify)
  from loose_equality_matches [where tn = sample_toNumber and s = stored_id_string
      and w = WriteOk, OF a b] c
  have "get_email_handler sample_toNumber stored_id_string (db sample_world)
       = \<lparr>statusCode = 200, body = EmailBody stored_email\<rparr>
   \<and> statusCode (snd (delete_email_handler sample_toNumber WriteOk stored_id_string
        (db sample_world))) = 200"
    by auto
  with a b show ?thesis by blast
qed

section \<open>Properties of the uploads\<close>

lemma upload_array_accepts:
  "upload_array n parts = Inr files \<Longrightarrow>
     files = parts \<and> (parts = [] \<or> n + length parts \<le> limit_files)
     \<and> (\<forall>f \<in> set parts. upload_size f \<le> limit_fileSize
            \<and> fieldname f = ''attachments'' \<and> allowedTypes_test (originalname f))"
proof (induction parts arbitrary: n files)
  case Nil
  then show ?case by simp
next
  case (Cons p ps)
  from Cons.prems obtain fs where
    h: "\<not> limit_files < n + 1" "upload_size p \<le> limit_fileSize"
       "fieldname p = ''attachments''" "allowedTypes_test (originalname p)"
       "upload_array (n + 1) ps = Inr fs" "files = p # fs"
    by (auto split: if_splits sum.splits)
  from Cons.IH [OF h(5)] h show ?case by auto
qed

lemma upload_array_too_many:
  "limit_files < length parts \<Longrightarrow> \<exists>e. upload_array 0 parts = Inl e"
  using upload_array_accepts [of 0 parts] by (cases "upload_array 0 parts") auto

lemma upload_array_too_large:
  "f \<in> set parts \<Longrightarrow> limit_fileSize < upload_size f \<Longrightarrow> \<exists>e. upload_array n parts = Inl e"
  using upload_array_accepts [of n parts] by (cases "upload_array n parts") auto

lemma foldl_add_file:
  "foldl add_file (sel, al) newFiles = (sel', al') \<Longrightarrow>
     \<forall>f \<in> set sel'. f \<in> set sel \<or> (f \<in> set newFiles \<and> file_size f \<le> 10 * 1024 * 1024)"
proof (induction newFiles arbitrary: sel al)
  case Nil
  then show ?case by simp
next
  case (Cons x xs)
  obtain s1 a1 where s: "add_file (sel, al) x = (s1, a1)" by (cases "add_file (sel, al) x")
  then have 1: "\<forall>f \<in> set s1. f \<in> set sel \<or> (f = x \<and> file_size f \<le> 10 * 1024 * 1024)"
    by (auto simp: add_file_def Let_def split: if_splits)
  from Cons.prems s have "foldl add_file (s1, a1) xs = (sel', al')" by simp
  from Cons.IH [OF this] 1 show ?case by auto
qed

lemma handleFileSelection_limits:
  "length (selectedFiles (handleFileSelection newFiles c)) \<le> 5
   \<and> (\<forall>f \<in> set (selectedFiles (handleFileSelection newFiles c)).
         f \<in> set (selectedFiles c) \<or> (f \<in> set newFiles \<and> file_size f \<le> 10 * 1024 * 1024))"
proof -
  obtain sel al where s: "foldl add_file (selectedFiles c, alerts c) newFiles = (sel, al)"
    by (cases "foldl add_file (selectedFiles c, alerts c) newFiles")
  have t: "slice sel 0 5 = take 5 sel" by (simp add: slice_def Let_def min_def take_all)
  from foldl_add_file [OF s] s t show ?thesis
    by (auto simp: handleFileSelection_def dest: in_set_takeD)
qed

text \<open>
  C7. A send request with more than 5 files, or with a file of more than 10 MB
  (10 * 1024 * 1024 bytes), is rejected by the upload middleware: the handler does not
  run, no message is handed to the transport and the store is unchanged. A request that
  is answered 200, or that hands a message to the transport, has at most 5 files of at
  most 10 MB each.
\<close>

theorem upload_limits:
  "((5 < length parts \<or> (\<exists>f \<in> set parts. 10 * 1024 * 1024 < upload_size f)) \<longrightarrow>
      post_send_email utf8 env to subj msg parts w
        = (w, \<lparr>statusCode = 500, body = DefaultErrorPage\<rparr>))
   \<and> (statusCode (snd (post_send_email utf8 env to subj msg parts w)) = 200 \<longrightarrow>
        length parts \<le> 5 \<and> (\<forall>f \<in> set parts. upload_size f \<le> 10 * 1024 * 1024))
   \<and> (outbox (fst (post_send_email utf8 env to subj msg parts w)) \<noteq> outbox w \<longrightarrow>
        length parts \<le> 5 \<and> (\<forall>f \<in> set parts. upload_size f \<le> 10 * 1024 * 1024))"
proof -
  have rej: "post_send_email utf8 env to subj msg parts w
        = (w, \<lparr>statusCode = 500, body = DefaultErrorPage\<rparr>)"
    if "5 < length parts \<or> (\<exists>f \<in> set parts. 10 * 1024 * 1024 < upload_size f)"
  proof -
    from that have "\<exists>e. upload_array 0 parts = Inl e"
      using upload_array_too_many [of parts] upload_array_too_large [of _ parts 0]
      by (auto simp: limit_files_def limit_fileSize_def)
    then show ?thesis by (auto simp: post_send_email_def)
  qed
  have ok: "length parts \<le> 5 \<and> (\<forall>f \<in> set parts. upload_size f \<le> 10 * 1024 * 1024)"
    if "post_send_email utf8 env to subj msg parts w
          \<noteq> (w, \<lparr>statusCode = 500, body = DefaultErrorPage\<rparr>)"
    using that rej by (meson not_le_imp_less)
  have a: "statusCode (snd (post_send_email utf8 env to subj msg parts w)) = 200 \<longrightarrow>
        length parts \<le> 5 \<and> (\<forall>f \<in> set parts. upload_size f \<le> 10 * 1024 * 1024)"
    using ok by (cases "post_send_email utf8 env to subj msg parts w
          = (w, \<lparr>statusCode = 500, body = DefaultErrorPage\<rparr>)") simp_all
  have b: "outbox (fst (post_send_email utf8 env to subj msg parts w)) \<noteq> outbox w \<longrightarrow>
        length parts \<le> 5 \<and> (\<forall>f \<in> set parts. upload_size f \<le> 10 * 1024 * 1024)"
    using ok by (cases "post_send_email utf8 env to subj msg parts w
          = (w, \<lparr>statusCode = 500, body = DefaultErrorPage\<rparr>)") simp_all
  from rej a b show ?thesis by blast
qed

theorem upload_limits_witness:
  "(5 < length (replicate 6 sample_upload)
      \<or> (\<exists>f \<in> set (replicate 6 sample_upload). 10 * 1024 * 1024 < upload_size f))
   \<and> post_send_email (\<lambda>s. s) sample_env (Some ''amy@example.org'') (Some ''Report'')
        (Some ''Second mail'') (replicate 6 sample_upload) sample_world
      = (sample_world, \<lparr>statusCode = 500, body = DefaultErrorPage\<rparr>)
   \<and> (5 < length [sample_upload\<lparr>upload_size := 10485761\<rparr>]
      \<or> (\<exists>f \<in> set [sample_upload\<lparr>upload_size := 10485761\<rparr>]. 10 * 1024 * 1024 < upload_size f))
   \<and> post_send_email (\<lambda>s. s) sample_env (Some ''amy@example.org'') (Some ''Report'')
        (Some ''Second mail'') [sample_upload\<lparr>upload_size := 10485761\<rparr>] sample_world
      = (sample_world, \<lparr>statusCode = 500, body = DefaultErrorPage\<rparr>)
   \<and> statusCode (snd (post_send_email (\<lambda>s. s) sample_env (Some ''amy@example.org'')
        (Some ''Report'') (Some ''Second mail'') [sample_upload] sample_world)) = 200
   \<and> length [sample_upload] \<le> 5"
proof -
  have a: "5 < length (replicate 6 sample_upload)
      \<or> (\<exists>f \<in> set (replicate 6 sample_upload). 10 * 1024 * 1024 < upload_size f)"
    by simp
  have b: "5 < length [sample_upload\<lparr>upload_size := 10485761\<rparr>]
      \<or> (\<exists>f \<in> set [sample_upload\<lparr>upload_size := 10485761\<rparr>]. 10 * 1024 * 1024 < upload_size f)"
    by simp
  have c: "statusCode (snd (post_send_email (\<lambda>s. s) sample_env (Some ''amy@example.org'')
        (Some ''Report'') (Some ''Second mail'') [sample_upload] sample_world)) = 200"
    by (simp add: post_send_email_def sample_upload_def sample_upload_ok limit_files_def
          limit_fileSize_def send_email_handler_def falsy_def sample_recipient_ok
          sample_env_def Let_def split_def)
  from upload_limits [of "replicate 6 sample_upload" "\<lambda>s. s" sample_env
      "Some ''amy@example.org''" "Some ''Report''" "Some ''Second mail''" sample_world] a
  have d: "post_send_email (\<lambda>s. s) sample_env (Some ''amy@example.org'') (Some ''Report'')
        (Some ''Second mail'') (replicate 6 sample_upload) sample_world
      = (sample_world, \<lparr>statusCode = 500, body = DefaultErrorPage\<rparr>)"
    by blast
  from upload_limits [of "[sample_upload\<lparr>upload_size := 10485761\<rparr>]" "\<lambda>s. s" sample_env
      "Some ''amy@example.org''" "Some ''Report''" "Some ''Second mail''" sample_world] b
  have e: "post_send_email (\<lambda>s. s) sample_env (Some ''amy@example.org'') (Some ''Report'')
        (Some ''Second mail'') [sample_upload\<lparr>upload_size := 10485761\<rparr>] sample_world
      = (sample_world, \<lparr>statusCode = 500, body = DefaultErrorPage\<rparr>)"
    by blast
  from upload_limits [of "[sample_upload]" "\<lambda>s. s" sample_env
      "Some ''amy@example.org''" "Some ''Report''" "Some ''Second mail''" sample_world] c
  have f: "length [sample_upload] \<le> 5" by blast
  from a b c d e f show ?thesis by blast
qed

section \<open>Properties of the client search\<close>

lemma loadEmails_fetches: "fetches (loadEmails rendered p f c) = fetches c @ [GetEmails p 10]"
  by (simp add: loadEmails_def displayEmails_def Let_def split: body.splits)

lemma str_includes_iff: "str_includes t s \<longleftrightarrow> (\<exists>p q. t = p @ s @ q)"
  by (simp add: str_includes_def sublist_def)

lemma handleSearch_item:
  assumes "i < length (emailItems c)"
  shows "visible (emailItems (handleSearch v c) ! i) \<longleftrightarrow>
           (\<exists>t. h4 (emailItems c ! i) = Some t \<and> str_includes (toLowerCase t) (toLowerCase v))"
  using assms by (auto simp: handleSearch_def visible_def Let_def split: option.splits)

text \<open>
  What \<open>handleSearch\<close> does to the rendered entries, whatever they are: it issues no
  request, leaves the selected files and the headings alone, and keeps an entry visible
  exactly when the entry has a heading whose lower-cased text contains the lower-cased
  term.
\<close>

lemma handleSearch_effect:
  "fetches (handleSearch v c) = fetches c
   \<and> selectedFiles (handleSearch v c) = selectedFiles c
   \<and> map h4 (emailItems (handleSearch v c)) = map h4 (emailItems c)
   \<and> (\<forall>i < length (emailItems c).
        visible (emailItems (handleSearch v c) ! i) \<longleftrightarrow>
          (\<exists>t. h4 (emailItems c ! i) = Some t
               \<and> (\<exists>p q. toLowerCase t = p @ toLowerCase v @ q)))"
proof -
  have a: "fetches (handleSearch v c) = fetches c" by (simp add: handleSearch_def Let_def)
  have b: "selectedFiles (handleSearch v c) = selectedFiles c"
    by (simp add: handleSearch_def Let_def)
  have m: "map h4 (emailItems (handleSearch v c)) = map h4 (emailItems c)"
    by (simp add: handleSearch_def Let_def comp_def)
  have d: "\<forall>i < length (emailItems c).
        visible (emailItems (handleSearch v c) ! i) \<longleftrightarrow>
          (\<exists>t. h4 (emailItems c ! i) = Some t
               \<and> (\<exists>p q. toLowerCase t = p @ toLowerCase v @ q))"
    by (simp add: handleSearch_item str_includes_iff)
  from a b m d show ?thesis by blast
qed

text \<open>
  Records whose fields carry no markup are rendered as one entry each, with the subject
  as heading text. For such records, with a subject that is not empty, the search keeps
  a record visible exactly when its subject contains the term, case-insensitively.
\<close>

lemma search_plain_records:
  assumes "\<forall>email \<in> set es. subject email \<noteq> []
             \<and> rendered (subject email) email = [\<lparr>h4 = Some (subject email), display = []\<rparr>]"
  shows "length (emailItems (handleSearch v (displayEmails rendered es c))) = length es
       \<and> (\<forall>i < length es.
             visible (emailItems (handleSearch v (displayEmails rendered es c)) ! i) \<longleftrightarrow>
               (\<exists>p q. toLowerCase (subject (es ! i)) = p @ toLowerCase v @ q))"
proof -
  have "map (\<lambda>email. rendered (if subject email = [] then ''No Subject'' else subject email)
                email) es
          = map (\<lambda>email. [\<lparr>h4 = Some (subject email), display = []\<rparr>]) es"
    using assms by (intro map_cong) auto
  then have "concat (map (\<lambda>email. rendered (if subject email = [] then ''No Subject''
                                             else subject email) email) es)
          = concat (map (\<lambda>email. [\<lparr>h4 = Some (subject email), display = []\<rparr>]) es)"
    by (rule arg_cong)
  also have "\<dots> = map (\<lambda>email. \<lparr>h4 = Some (subject email), display = []\<rparr>) es"
    by (induction es) simp_all
  finally have items: "emailItems (displayEmails rendered es c)
          = map (\<lambda>email. \<lparr>h4 = Some (subject email), display = []\<rparr>) es"
    by (simp add: displayEmails_def)
  have n: "length (emailItems (handleSearch v (displayEmails rendered es c))) = length es"
    by (simp add: handleSearch_def Let_def items)
  have e: "visible (emailItems (handleSearch v (displayEmails rendered es c)) ! i) \<longleftrightarrow>
            (\<exists>p q. toLowerCase (subject (es ! i)) = p @ toLowerCase v @ q)"
    if "i < length es" for i
  proof -
    have l: "i < length (emailItems (displayEmails rendered es c))"
      using that by (simp add: items)
    have h: "h4 (emailItems (displayEmails rendered es c) ! i) = Some (subject (es ! i))"
      using that by (simp add: items)
    show ?thesis by (simp only: handleSearch_item [OF l] h str_includes_iff) blast
  qed
  from n e show ?thesis by blast
qed

lemma lower_markup_subject: "toLowerCase ''<b>Sale</b>'' = ''<b>sale</b>''"
  by code_simp

lemma lower_markup_term: "toLowerCase ''<b>'' = ''<b>''"
  by code_simp

lemma lower_Sale: "toLowerCase ''Sale'' = ''sale''"
  by code_simp

lemma sale_without_tag: "\<not> str_includes ''sale'' ''<b>''"
  by code_simp

text \<open>
  C8, at a record the code does not filter by its subject. A mail sent with the subject
  \<^verbatim>\<open><b>Sale</b>\<close> passes the validation of the send handler and is stored. The client
  writes that subject unescaped between the \<^verbatim>\<open>h4\<close> tags, so the browser builds one entry
  whose heading has the text \<^verbatim>\<open>Sale\<close>. The subject contains the term \<^verbatim>\<open><b>\<close>, and yet the
  search for \<^verbatim>\<open><b>\<close> hides the entry.
\<close>

theorem search_hides_markup_subject:
  "(\<exists>p q. toLowerCase (subject (stored_email\<lparr>subject := ''<b>Sale</b>''\<rparr>))
            = p @ toLowerCase ''<b>'' @ q)
   \<and> \<not> visible (emailItems (handleSearch ''<b>''
         (displayEmails (\<lambda>heading email. [\<lparr>h4 = Some ''Sale'', display = []\<rparr>])
            [stored_email\<lparr>subject := ''<b>Sale</b>''\<rparr>] sample_client)) ! 0)"
proof -
  have "toLowerCase (subject (stored_email\<lparr>subject := ''<b>Sale</b>''\<rparr>))
          = [] @ toLowerCase ''<b>'' @ ''sale</b>''"
    by (simp add: lower_markup_subject lower_markup_term)
  then have a: "\<exists>p q. toLowerCase (subject (stored_email\<lparr>subject := ''<b>Sale</b>''\<rparr>))
            = p @ toLowerCase ''<b>'' @ q"
    by blast
  have b: "\<not> visible (emailItems (handleSearch ''<b>''
         (displayEmails (\<lambda>heading email. [\<lparr>h4 = Some ''Sale'', display = []\<rparr>])
            [stored_email\<lparr>subject := ''<b>Sale</b>''\<rparr>] sample_client)) ! 0)"
    by (simp add: handleSearch_def displayEmails_def visible_def Let_def lower_Sale
          lower_markup_term sale_without_tag)
  from a b show ?thesis by blast
qed

end
